theory Spec2Isabelle
  imports Main "HOL-Library.AList"
begin

section \<open>Values, errors and the object store\<close>

text \<open>
  The JavaScript values that reach the wallet manager and the fiat protocol: \<open>undefined\<close>,
  \<open>null\<close>, strings, base-unit amounts (\<open>number | bigint\<close>, both integral in base units)
  and references to objects (signers, accounts) living in the store.
\<close>

datatype jsval = Undefined | Null | Str string | Number int | BigInt int | Ref nat

text \<open>
  The exceptions the code can raise. \<open>NotImplementedError\<close> is imported from
  \<^verbatim>\<open>./errors.js\<close> and is always constructed with the signature of the method that
  threw it; \<open>TypeError\<close> is the runtime's own (a property read on \<open>undefined\<close>, a call
  of something that is not a function).
\<close>

datatype error = NotImplementedError string | TypeError string

text \<open>
  The failure names of the specification's error taxonomy, and the name under which each
  exception of the code falls. No exception class of the code corresponds to
  \<open>InvalidArgument\<close>, \<open>InvalidAmountSpecification\<close>, \<open>SignerNotFound\<close> or \<open>Disposed\<close>.
\<close>

datatype failure =
  NotImplemented | InvalidArgument | InvalidAmountSpecification | SignerNotFound
  | Disposed | RuntimeTypeError

fun failure_of :: "error \<Rightarrow> failure" where
  "failure_of (NotImplementedError _) = NotImplemented"
| "failure_of (TypeError _) = RuntimeTypeError"

text \<open>
  The outcome of a call is \<open>Inl e\<close> when it throws \<open>e\<close> (for an \<open>async\<close> method: when the
  promise it returns is rejected with \<open>e\<close>) and \<open>Inr v\<close> when it returns \<open>v\<close>.
\<close>

definition fails_with :: "failure \<Rightarrow> error + 'a \<Rightarrow> bool" where
  "fails_with k r = (case r of Inl e \<Rightarrow> failure_of e = k | Inr _ \<Rightarrow> False)"

definition succeeds :: "error + 'a \<Rightarrow> bool" where
  "succeeds r = (case r of Inl _ \<Rightarrow> False | Inr _ \<Rightarrow> True)"

text \<open>
  A signer or an account, as far as the manager looks at it: the optional fields the
  \<open>ISigner\<close> declaration lists. A field that is not set is \<open>None\<close>.
\<close>

record entity =
  isActive :: "bool option"
  index :: "int option"
  path :: "string option"
  address :: "string option"

type_synonym heap = "nat \<Rightarrow> entity"

text \<open>\<open>if (signer.isActive)\<close>: a missing field reads as \<open>undefined\<close>, which is falsy.\<close>

fun truthy :: "bool option \<Rightarrow> bool" where
  "truthy (Some b) = b"
| "truthy None = False"

section \<open>Registries: \<open>Map\<close> objects and plain objects\<close>

text \<open>
  \<open>_signers\<close> and \<open>_accounts\<close> hold a \<open>Map\<close> after construction and a plain object
  \<open>{}\<close> after \<open>dispose()\<close>. A \<open>Map\<close> keeps its entries in an internal slot, in insertion
  order; a plain object keeps own enumerable properties, listed here in enumeration order.
\<close>

datatype registry = MapObj "(string \<times> jsval) list" | PlainObj "(string \<times> jsval) list"

definition Map_new :: registry where
  "Map_new = MapObj []"

text \<open>\<open>map.set(k, v)\<close>: replaces the value of an existing key in place, appends a new key.\<close>

fun Map_set :: "string \<Rightarrow> jsval \<Rightarrow> registry \<Rightarrow> error + registry" where
  "Map_set k v (MapObj es) = Inr (MapObj (AList.update k v es))"
| "Map_set k v (PlainObj ps) = Inl (TypeError ''set is not a function'')"

text \<open>
  \<open>map.get(k)\<close>: \<open>undefined\<close> for a key that is not there. A plain object \<open>{}\<close> has no
  \<open>get\<close> method (nor has \<open>Object.prototype\<close>), so the call throws a \<open>TypeError\<close>.
\<close>

fun Map_get :: "string \<Rightarrow> registry \<Rightarrow> error + jsval" where
  "Map_get k (MapObj es) = Inr (case map_of es k of None \<Rightarrow> Undefined | Some v \<Rightarrow> v)"
| "Map_get k (PlainObj ps) = Inl (TypeError ''get is not a function'')"

text \<open>
  \<open>Object.values(o)\<close>: the values of the own enumerable string-keyed properties of \<open>o\<close>.
  The entries of a \<open>Map\<close> are not properties: for a \<open>Map\<close> built by \<open>new Map()\<close> and
  filled by \<open>set\<close> the result is the empty array.
\<close>

fun Object_values :: "registry \<Rightarrow> jsval list" where
  "Object_values (MapObj es) = []"
| "Object_values (PlainObj ps) = map snd ps"

section \<open>WalletManager\<close>

text \<open>\<open>WalletConfig\<close> is not declared in the sources: a plain object of properties.\<close>

type_synonym WalletConfig = "(string \<times> jsval) list"

record WalletManager =
  signers :: registry
  accounts :: registry
  config :: WalletConfig

record FeeRates =
  normal :: int
  fast :: int

text \<open>
  \<open>constructor (signer, config = { })\<close>: no check of \<open>signer\<close>; the fresh \<open>Map\<close> gets
  the entry \<open>'default'\<close>, whatever the value.
\<close>

definition WalletManager_constructor ::
    "jsval \<Rightarrow> WalletConfig option \<Rightarrow> error + WalletManager" where
  "WalletManager_constructor signer cfg =
     (case Map_set ''default'' signer Map_new of
        Inl e \<Rightarrow> Inl e
      | Inr sm \<Rightarrow>
          Inr \<lparr> signers = sm, accounts = Map_new,
                config = (case cfg of None \<Rightarrow> [] | Some c \<Rightarrow> c) \<rparr>)"

text \<open>\<open>createSigner\<close>: the body is a single \<open>throw\<close>; the manager is left as it was.\<close>

definition createSigner ::
    "string \<Rightarrow> jsval \<Rightarrow> WalletManager \<Rightarrow> (error + unit) \<times> WalletManager" where
  "createSigner signerName signer this =
     (Inl (NotImplementedError ''createSigner(signerName, signer)''), this)"

text \<open>\<open>getSigner\<close>: \<open>return this._signers.get(signerName)\<close>.\<close>

definition getSigner :: "string \<Rightarrow> WalletManager \<Rightarrow> error + jsval" where
  "getSigner signerName this = Map_get signerName (signers this)"

text \<open>
  The three abstract methods. Each is \<open>async\<close> with a body that only throws: the promise
  is rejected. The default values of the parameters are bound first, as the call does.
\<close>

definition getAccount :: "int option \<Rightarrow> string option \<Rightarrow> WalletManager \<Rightarrow> error + jsval" where
  "getAccount idx signerName this =
     (let i = (case idx of None \<Rightarrow> 0 | Some n \<Rightarrow> n);
          s = (case signerName of None \<Rightarrow> ''default'' | Some n \<Rightarrow> n)
      in Inl (NotImplementedError ''getAccount(index)''))"

definition getAccountByPath ::
    "string \<Rightarrow> string option \<Rightarrow> WalletManager \<Rightarrow> error + jsval" where
  "getAccountByPath p signerName this =
     (let s = (case signerName of None \<Rightarrow> ''default'' | Some n \<Rightarrow> n)
      in Inl (NotImplementedError ''getAccountByPath(path)''))"

definition getFeeRates :: "WalletManager \<Rightarrow> error + FeeRates" where
  "getFeeRates this = Inl (NotImplementedError ''getFeeRates()'')"

text \<open>
  One of the two loops of \<open>dispose()\<close>, over the array \<open>Object.values\<close> returned:
  \<^verbatim>\<open>for (const signer of vs) { if (signer.isActive) { signer.dispose() } }\<close>
  Reading \<open>isActive\<close> of \<open>undefined\<close> or \<open>null\<close> throws; of a string or a number it is
  \<open>undefined\<close>. The \<open>dispose()\<close> of the signer or account itself belongs to its
  implementation, which is no part of this package: it is the parameter \<open>D\<close>, acting
  on the store. The result is the exception thrown, if any, and the store reached.
\<close>

fun dispose_each :: "(nat \<Rightarrow> heap \<Rightarrow> heap) \<Rightarrow> jsval list \<Rightarrow> heap \<Rightarrow> error option \<times> heap" where
  "dispose_each D [] h = (None, h)"
| "dispose_each D (Undefined # vs) h = (Some (TypeError ''isActive of undefined''), h)"
| "dispose_each D (Null # vs) h = (Some (TypeError ''isActive of null''), h)"
| "dispose_each D (Ref r # vs) h =
     dispose_each D vs (if truthy (isActive (h r)) then D r h else h)"
| "dispose_each D (v # vs) h = dispose_each D vs h"

text \<open>
  \<open>dispose()\<close>: both loops, then \<open>this._signers = {}\<close> and \<open>this._accounts = {}\<close>. An
  exception leaves the registries as they were.
\<close>

definition dispose ::
    "(nat \<Rightarrow> heap \<Rightarrow> heap) \<Rightarrow> heap \<times> WalletManager \<Rightarrow> (error + unit) \<times> heap \<times> WalletManager" where
  "dispose D w =
     (case w of (h, this) \<Rightarrow>
        (case dispose_each D (Object_values (signers this)) h of
           (Some e, h1) \<Rightarrow> (Inl e, h1, this)
         | (None, h1) \<Rightarrow>
             (case dispose_each D (Object_values (accounts this)) h1 of
                (Some e, h2) \<Rightarrow> (Inl e, h2, this)
              | (None, h2) \<Rightarrow>
                  (Inr (), h2, this\<lparr> signers := PlainObj [], accounts := PlainObj [] \<rparr>))))"

section \<open>FiatProtocol\<close>

text \<open>An options object: its own properties. A property that is missing reads as
  \<open>undefined\<close>.\<close>

type_synonym options = "(string \<times> jsval) list"

definition get_prop :: "options \<Rightarrow> string \<Rightarrow> jsval" where
  "get_prop opts k = (case map_of opts k of None \<Rightarrow> Undefined | Some v \<Rightarrow> v)"

definition present :: "options \<Rightarrow> string \<Rightarrow> bool" where
  "present opts k = (get_prop opts k \<noteq> Undefined)"

record FiatProtocol =
  account :: jsval

record FiatQuote =
  cryptoAmount :: int
  fiatAmount :: int
  fee :: int
  rate :: string

text \<open>\<open>constructor (account = undefined)\<close>.\<close>

definition FiatProtocol_constructor :: "jsval option \<Rightarrow> FiatProtocol" where
  "FiatProtocol_constructor acc =
     \<lparr> account = (case acc of None \<Rightarrow> Undefined | Some a \<Rightarrow> a) \<rparr>"

text \<open>
  The four value-moving operations of the abstract class. Each is \<open>async\<close> with a body
  that only throws; \<open>options\<close> is never read and nothing is assigned.
\<close>

definition quoteBuy :: "FiatProtocol \<Rightarrow> options \<Rightarrow> error + FiatQuote" where
  "quoteBuy this opts = Inl (NotImplementedError ''quoteBuy(options)'')"

definition buy :: "FiatProtocol \<Rightarrow> options \<Rightarrow> error + string" where
  "buy this opts = Inl (NotImplementedError ''buy(options)'')"

definition quoteSell :: "FiatProtocol \<Rightarrow> options \<Rightarrow> error + FiatQuote" where
  "quoteSell this opts = Inl (NotImplementedError ''quoteSell(options)'')"

definition sell :: "FiatProtocol \<Rightarrow> options \<Rightarrow> error + string" where
  "sell this opts = Inl (NotImplementedError ''sell(options)'')"

subsection \<open>The declared types of the options\<close>

text \<open>
  The type declarations, read as predicates on an options object: \<open>string\<close>,
  \<open>[optional] string\<close>, \<open>number | bigint\<close> and the optional \<open>never\<close> (nothing but
  \<open>undefined\<close>, that is: the property is absent).
\<close>

fun is_string :: "jsval \<Rightarrow> bool" where
  "is_string (Str _) = True"
| "is_string _ = False"

fun is_optional_string :: "jsval \<Rightarrow> bool" where
  "is_optional_string (Str _) = True"
| "is_optional_string Undefined = True"
| "is_optional_string _ = False"

fun is_amount :: "jsval \<Rightarrow> bool" where
  "is_amount (Number _) = True"
| "is_amount (BigInt _) = True"
| "is_amount _ = False"

fun is_optional_never :: "jsval \<Rightarrow> bool" where
  "is_optional_never Undefined = True"
| "is_optional_never _ = False"

definition BuyCommonOptions :: "options \<Rightarrow> bool" where
  "BuyCommonOptions opts =
     (is_string (get_prop opts ''cryptoAsset'') \<and> is_string (get_prop opts ''fiatCurrency'')
      \<and> is_optional_string (get_prop opts ''recipient''))"

definition BuyExactCryptoAmountOptions :: "options \<Rightarrow> bool" where
  "BuyExactCryptoAmountOptions opts =
     (is_amount (get_prop opts ''cryptoAmount'') \<and> is_optional_never (get_prop opts ''fiatAmount''))"

definition BuyWithFiatAmountOptions :: "options \<Rightarrow> bool" where
  "BuyWithFiatAmountOptions opts =
     (is_amount (get_prop opts ''fiatAmount'') \<and> is_optional_never (get_prop opts ''cryptoAmount''))"

definition BuyOptions :: "options \<Rightarrow> bool" where
  "BuyOptions opts =
     (BuyCommonOptions opts
      \<and> (BuyExactCryptoAmountOptions opts \<or> BuyWithFiatAmountOptions opts))"

definition SellCommonOptions :: "options \<Rightarrow> bool" where
  "SellCommonOptions opts =
     (is_string (get_prop opts ''cryptoAsset'') \<and> is_string (get_prop opts ''fiatCurrency'')
      \<and> is_optional_string (get_prop opts ''refundAddress''))"

definition SellExactCryptoAmountOptions :: "options \<Rightarrow> bool" where
  "SellExactCryptoAmountOptions opts =
     (is_amount (get_prop opts ''cryptoAmount'') \<and> is_optional_never (get_prop opts ''fiatAmount''))"

definition SellForFiatAmountOptions :: "options \<Rightarrow> bool" where
  "SellForFiatAmountOptions opts =
     (is_amount (get_prop opts ''fiatAmount'') \<and> is_optional_never (get_prop opts ''cryptoAmount''))"

definition SellOptions :: "options \<Rightarrow> bool" where
  "SellOptions opts =
     (SellCommonOptions opts
      \<and> (SellExactCryptoAmountOptions opts \<or> SellForFiatAmountOptions opts))"

text \<open>The swap options, from the declarations of the swap protocol.\<close>

definition SwapCommonOptions :: "options \<Rightarrow> bool" where
  "SwapCommonOptions opts =
     (is_string (get_prop opts ''tokenIn'') \<and> is_string (get_prop opts ''tokenOut'')
      \<and> is_optional_string (get_prop opts ''to''))"

definition SwapBuyOptions :: "options \<Rightarrow> bool" where
  "SwapBuyOptions opts =
     (is_optional_never (get_prop opts ''tokenInAmount'') \<and> is_amount (get_prop opts ''tokenOutAmount''))"

definition SwapSellOptions :: "options \<Rightarrow> bool" where
  "SwapSellOptions opts =
     (is_amount (get_prop opts ''tokenInAmount'') \<and> is_optional_never (get_prop opts ''tokenOutAmount''))"

definition SwapOptions :: "options \<Rightarrow> bool" where
  "SwapOptions opts =
     (SwapCommonOptions opts \<and> (SwapBuyOptions opts \<or> SwapSellOptions opts))"

section \<open>Sample objects\<close>

text \<open>
  Modelled from the spec: no implementation of \<open>ISigner.dispose\<close> is among the sources
  (the declaration says it clears the secret material; the specification says \<open>isActive\<close>
  is false once a signer is disposed). This is the simplest such signer, used for concrete
  runs only.
\<close>

definition erase_signer :: "nat \<Rightarrow> heap \<Rightarrow> heap" where
  "erase_signer r h = h(r := (h r)\<lparr> isActive := Some False \<rparr>)"

definition active_entity :: entity where
  "active_entity = \<lparr> isActive = Some True, index = None, path = None, address = None \<rparr>"

definition bare_entity :: entity where
  "bare_entity = \<lparr> isActive = None, index = None, path = None, address = None \<rparr>"

text \<open>A store with one active signer, at address 1.\<close>

definition sample_heap :: heap where
  "sample_heap = (\<lambda>_. bare_entity)(1 := active_entity)"

text \<open>The manager \<open>new WalletManager(signer)\<close> builds for that signer, and what
  \<open>dispose()\<close> leaves of it.\<close>

definition sample_manager :: WalletManager where
  "sample_manager = \<lparr> signers = MapObj [(''default'', Ref 1)], accounts = MapObj [], config = [] \<rparr>"

definition disposed_manager :: WalletManager where
  "disposed_manager = \<lparr> signers = PlainObj [], accounts = PlainObj [], config = [] \<rparr>"

text \<open>A manager whose registries are plain objects, as a subclass that assigns them has.\<close>

definition plain_manager :: WalletManager where
  "plain_manager = \<lparr> signers = PlainObj [(''default'', Ref 1)], accounts = PlainObj [], config = [] \<rparr>"

text \<open>A fiat protocol without account, and three requests: fiat amount only, both
  amounts, no amount.\<close>

definition sample_protocol :: FiatProtocol where
  "sample_protocol = FiatProtocol_constructor None"

definition fiat_only :: options where
  "fiat_only = [(''cryptoAsset'', Str ''eth''), (''fiatCurrency'', Str ''USD''),
                (''fiatAmount'', Number 10000)]"

definition both_amounts :: options where
  "both_amounts = [(''cryptoAsset'', Str ''eth''), (''fiatCurrency'', Str ''USD''),
                   (''fiatAmount'', Number 10000), (''cryptoAmount'', BigInt 1)]"

definition no_amount :: options where
  "no_amount = [(''cryptoAsset'', Str ''eth''), (''fiatCurrency'', Str ''USD'')]"

section \<open>Basic facts\<close>

lemma constructor_sample:
  "WalletManager_constructor (Ref 1) None = Inr sample_manager"
  by (simp add: WalletManager_constructor_def Map_new_def sample_manager_def)

lemma constructor_registry_is_Map:
  "WalletManager_constructor signer cfg = Inr m \<Longrightarrow> signers m = MapObj [(''default'', signer)]"
  by (auto simp: WalletManager_constructor_def Map_new_def)

lemma createSigner_keeps_manager:
  "snd (createSigner signerName signer this) = this"
  by (simp add: createSigner_def)

lemma dispose_Map_registries:
  "dispose D (h, \<lparr> signers = MapObj es, accounts = MapObj as, config = c \<rparr>)
     = (Inr (), h, \<lparr> signers = PlainObj [], accounts = PlainObj [], config = c \<rparr>)"
  by (simp add: dispose_def)

lemma dispose_sample:
  "dispose D (sample_heap, sample_manager) = (Inr (), sample_heap, disposed_manager)"
  by (simp add: sample_manager_def disposed_manager_def dispose_Map_registries)

lemma dispose_result_registries:
  assumes "dispose D (h, m) = (Inr (), h', m')"
  shows "signers m' = PlainObj [] \<and> accounts m' = PlainObj [] \<and> config m' = config m"
  using assms
  by (auto simp: dispose_def split: prod.splits option.splits)

text \<open>
  With a plain object as registry the loop of \<open>dispose()\<close> does reach the signer: the
  active signer at address 1 is handed to its own \<open>dispose()\<close>.
\<close>

lemma dispose_plain_registry_reaches_signer:
  "dispose erase_signer (sample_heap, plain_manager)
     = (Inr (), erase_signer 1 sample_heap, disposed_manager)
   \<and> isActive (erase_signer 1 sample_heap 1) = Some False"
  by (simp add: dispose_def plain_manager_def disposed_manager_def sample_heap_def
      active_entity_def erase_signer_def)

text \<open>
  The loop itself does its work: over the values of a plain object, and with signers whose
  \<open>dispose()\<close> marks them inactive, every object the loop has passed is inactive when
  \<open>dispose()\<close> returns.
\<close>

lemma dispose_step_keeps_inactive:
  assumes "\<not> truthy (isActive (h r))"
  shows "\<not> truthy (isActive ((if truthy (isActive (h q)) then erase_signer q h else h) r))"
  using assms by (simp add: erase_signer_def)

lemma dispose_each_keeps_inactive:
  "\<not> truthy (isActive (h r)) \<Longrightarrow> \<not> truthy (isActive (snd (dispose_each erase_signer vs h) r))"
proof (induction vs arbitrary: h)
  case Nil
  then show ?case by simp
next
  case (Cons v vs)
  show ?case
  proof (cases v)
    case (Ref q)
    let ?h1 = "if truthy (isActive (h q)) then erase_signer q h else h"
    have "\<not> truthy (isActive (?h1 r))"
      using Cons.prems by (rule dispose_step_keeps_inactive)
    then have "\<not> truthy (isActive (snd (dispose_each erase_signer vs ?h1) r))"
      by (rule Cons.IH)
    with Ref show ?thesis by simp
  qed (use Cons in simp_all)
qed

lemma dispose_each_erases:
  "dispose_each erase_signer vs h = (None, h') \<Longrightarrow> Ref r \<in> set vs
     \<Longrightarrow> \<not> truthy (isActive (h' r))"
proof (induction vs arbitrary: h)
  case Nil
  then show ?case by simp
next
  case (Cons v vs)
  show ?case
  proof (cases v)
    case (Ref q)
    let ?h1 = "if truthy (isActive (h q)) then erase_signer q h else h"
    from Cons.prems(1) Ref have run: "dispose_each erase_signer vs ?h1 = (None, h')"
      by simp
    show ?thesis
    proof (cases "r = q")
      case True
      have "\<not> truthy (isActive (?h1 r))"
        using True by (simp add: erase_signer_def)
      then have "\<not> truthy (isActive (snd (dispose_each erase_signer vs ?h1) r))"
        by (rule dispose_each_keeps_inactive)
      with run show ?thesis by simp
    next
      case False
      with Cons.prems(2) Ref have "Ref r \<in> set vs" by simp
      with run show ?thesis by (rule Cons.IH)
    qed
  qed (use Cons in auto)
qed

lemma dispose_plain_signers_erased:
  assumes run: "dispose erase_signer (h, m) = (Inr (), h', m')"
    and reg: "signers m = PlainObj ps"
    and mem: "(k, Ref r) \<in> set ps"
  shows "\<not> truthy (isActive (h' r))"
proof -
  from run obtain h1 where
    first: "dispose_each erase_signer (Object_values (signers m)) h = (None, h1)" and
    second: "dispose_each erase_signer (Object_values (accounts m)) h1 = (None, h')"
    by (auto simp: dispose_def split: prod.splits option.splits)
  from mem have "Ref r \<in> set (map snd ps)"
    by force
  with first reg have "\<not> truthy (isActive (h1 r))"
    by (simp add: dispose_each_erases)
  then have "\<not> truthy (isActive (snd (dispose_each erase_signer (Object_values (accounts m)) h1) r))"
    by (rule dispose_each_keeps_inactive)
  with second show ?thesis by simp
qed

text \<open>After \<open>dispose()\<close> the registry is \<open>{}\<close>, and \<open>getSigner\<close> calls a \<open>get\<close> that
  is not there.\<close>

lemma getSigner_after_dispose:
  assumes "dispose D (h, m) = (Inr (), h', m')"
  shows "getSigner signerName m' = Inl (TypeError ''get is not a function'')"
  using dispose_result_registries [OF assms] by (simp add: getSigner_def)

text \<open>What the declared types \<open>BuyOptions\<close>, \<open>SellOptions\<close> and \<open>SwapOptions\<close> say
  about the two amounts: an object of such a type carries exactly one of them. These are
  static types; no operation checks them when it runs.\<close>

lemma is_amount_present: "is_amount (get_prop opts k) \<Longrightarrow> present opts k"
  by (cases "get_prop opts k") (simp_all add: present_def)

lemma is_optional_never_absent: "is_optional_never (get_prop opts k) \<Longrightarrow> \<not> present opts k"
  by (cases "get_prop opts k") (simp_all add: present_def)

lemma BuyOptions_exactly_one:
  "BuyOptions opts \<Longrightarrow> present opts ''cryptoAmount'' \<noteq> present opts ''fiatAmount''"
  unfolding BuyOptions_def BuyExactCryptoAmountOptions_def BuyWithFiatAmountOptions_def
  using is_amount_present is_optional_never_absent by blast

lemma SellOptions_exactly_one:
  "SellOptions opts \<Longrightarrow> present opts ''cryptoAmount'' \<noteq> present opts ''fiatAmount''"
  unfolding SellOptions_def SellExactCryptoAmountOptions_def SellForFiatAmountOptions_def
  using is_amount_present is_optional_never_absent by blast

lemma SwapOptions_exactly_one:
  "SwapOptions opts \<Longrightarrow> present opts ''tokenInAmount'' \<noteq> present opts ''tokenOutAmount''"
  unfolding SwapOptions_def SwapBuyOptions_def SwapSellOptions_def
  using is_amount_present is_optional_never_absent by blast

lemma sample_options_typing:
  "BuyOptions fiat_only \<and> \<not> BuyOptions both_amounts \<and> \<not> BuyOptions no_amount"
  by (simp add: BuyOptions_def BuyCommonOptions_def BuyExactCryptoAmountOptions_def
      BuyWithFiatAmountOptions_def get_prop_def fiat_only_def both_amounts_def no_amount_def)

section \<open>Amount fields of the fiat operations\<close>

text \<open>
  C1, as stated, fails: a request with both amount fields present, and one with neither,
  does not fail with InvalidAmountSpecification. Here \<open>quoteBuy\<close> on both.
\<close>

theorem quoteBuy_no_amount_check:
  "present both_amounts ''cryptoAmount'' \<and> present both_amounts ''fiatAmount''
   \<and> \<not> fails_with InvalidAmountSpecification (quoteBuy sample_protocol both_amounts)
   \<and> \<not> present no_amount ''cryptoAmount'' \<and> \<not> present no_amount ''fiatAmount''
   \<and> \<not> fails_with InvalidAmountSpecification (quoteBuy sample_protocol no_amount)"
  by (simp add: present_def get_prop_def both_amounts_def no_amount_def quoteBuy_def
      fails_with_def)

text \<open>
  C1 (amended). On the abstract FiatProtocol each of \<open>quoteBuy\<close>, \<open>buy\<close>, \<open>quoteSell\<close>
  and \<open>sell\<close> fails with NotImplemented for every request: when both amount fields are
  present, when neither is, and when exactly one is. The outcome is the rejection alone; no
  state is touched before it.
\<close>

theorem fiat_operations_not_implemented:
  "quoteBuy this opts = Inl (NotImplementedError ''quoteBuy(options)'')
   \<and> buy this opts = Inl (NotImplementedError ''buy(options)'')
   \<and> quoteSell this opts = Inl (NotImplementedError ''quoteSell(options)'')
   \<and> sell this opts = Inl (NotImplementedError ''sell(options)'')
   \<and> fails_with NotImplemented (quoteBuy this opts)
   \<and> fails_with NotImplemented (buy this opts)
   \<and> fails_with NotImplemented (quoteSell this opts)
   \<and> fails_with NotImplemented (sell this opts)"
  by (simp add: quoteBuy_def buy_def quoteSell_def sell_def fails_with_def)

section \<open>Disposal\<close>

text \<open>
  C2, on the code: a manager built by the constructor for an active signer. \<open>dispose()\<close>
  returns, the registries are replaced by \<open>{}\<close>, and the store is as it was: the
  signer registered under \<open>default\<close> was never handed to its \<open>dispose()\<close> and is still
  active.
\<close>

theorem dispose_leaves_default_signer_active:
  "WalletManager_constructor (Ref 1) None = Inr sample_manager
   \<and> getSigner ''default'' sample_manager = Inr (Ref 1)
   \<and> isActive (sample_heap 1) = Some True
   \<and> dispose erase_signer (sample_heap, sample_manager)
       = (Inr (), sample_heap, disposed_manager)
   \<and> isActive (fst (snd (dispose erase_signer (sample_heap, sample_manager))) 1) = Some True"
proof -
  have reg: "getSigner ''default'' sample_manager = Inr (Ref 1)"
    by (simp add: getSigner_def sample_manager_def)
  have act: "isActive (sample_heap 1) = Some True"
    by (simp add: sample_heap_def active_entity_def)
  from reg act constructor_sample dispose_sample [of erase_signer] show ?thesis
    by simp
qed

text \<open>
  C3, as stated, fails: on a disposed manager \<open>getFeeRates\<close> and \<open>getAccount\<close> do not
  fail with Disposed.
\<close>

theorem disposed_manager_not_Disposed:
  "\<not> fails_with Disposed
       (getFeeRates (snd (snd (dispose erase_signer (sample_heap, sample_manager)))))
   \<and> \<not> fails_with Disposed
       (getAccount (Some 0) (Some ''default'')
          (snd (snd (dispose erase_signer (sample_heap, sample_manager)))))"
  by (simp add: fails_with_def getFeeRates_def getAccount_def)

text \<open>
  C3 (amended). On a manager on which \<open>dispose()\<close> has completed, \<open>getAccount\<close>,
  \<open>getAccountByPath\<close>, \<open>getFeeRates\<close> and \<open>createSigner\<close> fail with NotImplemented, as
  they do before disposal, and none of them fails with Disposed.
\<close>

theorem after_dispose_not_implemented:
  assumes "dispose D (h, m) = (Inr (), h', m')"
  shows "fails_with NotImplemented (getAccount idx n1 m')
   \<and> fails_with NotImplemented (getAccountByPath p n2 m')
   \<and> fails_with NotImplemented (getFeeRates m')
   \<and> fails_with NotImplemented (fst (createSigner n3 s m'))
   \<and> \<not> fails_with Disposed (getAccount idx n1 m')
   \<and> \<not> fails_with Disposed (getAccountByPath p n2 m')
   \<and> \<not> fails_with Disposed (getFeeRates m')
   \<and> \<not> fails_with Disposed (fst (createSigner n3 s m'))"
  by (simp add: fails_with_def getAccount_def getAccountByPath_def getFeeRates_def
      createSigner_def)

theorem after_dispose_not_implemented_witness:
  "dispose erase_signer (sample_heap, sample_manager) = (Inr (), sample_heap, disposed_manager)
   \<and> fails_with NotImplemented (getAccount (Some 0) (Some ''default'') disposed_manager)
   \<and> fails_with NotImplemented (getAccountByPath ''0'/0/0'' None disposed_manager)
   \<and> fails_with NotImplemented (getFeeRates disposed_manager)
   \<and> fails_with NotImplemented (fst (createSigner ''hot'' (Ref 2) disposed_manager))"
  using after_dispose_not_implemented [OF dispose_sample [of erase_signer],
      of "Some 0" "Some ''default''" "''0'/0/0''" None "''hot''" "Ref 2"]
  by (simp add: dispose_sample)

text \<open>
  C10. A second \<open>dispose()\<close> on a manager on which \<open>dispose()\<close> has completed does not
  throw and changes nothing, neither the manager nor the store: both registries are
  empty before and after.
\<close>

theorem dispose_idempotent:
  assumes "dispose D (h, m) = (Inr (), h', m')"
  shows "dispose D (h', m') = (Inr (), h', m')
   \<and> signers m' = PlainObj [] \<and> accounts m' = PlainObj []"
proof -
  from dispose_result_registries [OF assms]
  have regs: "signers m' = PlainObj []" "accounts m' = PlainObj []"
    by simp_all
  then have "m'\<lparr> signers := PlainObj [], accounts := PlainObj [] \<rparr> = m'"
    by simp
  with regs show ?thesis
    by (simp add: dispose_def)
qed

theorem dispose_idempotent_witness:
  "dispose erase_signer (sample_heap, sample_manager)
     = (Inr (), sample_heap, disposed_manager)
   \<and> dispose erase_signer (sample_heap, disposed_manager)
     = (Inr (), sample_heap, disposed_manager)
   \<and> dispose erase_signer (sample_heap, plain_manager)
     = (Inr (), erase_signer 1 sample_heap, disposed_manager)
   \<and> dispose erase_signer (erase_signer 1 sample_heap, disposed_manager)
     = (Inr (), erase_signer 1 sample_heap, disposed_manager)
   \<and> signers disposed_manager = PlainObj [] \<and> accounts disposed_manager = PlainObj []"
proof -
  have first: "dispose erase_signer (sample_heap, sample_manager)
     = (Inr (), sample_heap, disposed_manager)"
    by (rule dispose_sample)
  have first': "dispose erase_signer (sample_heap, plain_manager)
     = (Inr (), erase_signer 1 sample_heap, disposed_manager)"
    using dispose_plain_registry_reaches_signer by simp
  from dispose_idempotent [OF first] dispose_idempotent [OF first'] first first'
  show ?thesis
    by simp
qed

section \<open>Construction and the signer registry\<close>

text \<open>
  C4, as stated, fails: constructing a manager with \<open>undefined\<close> as the default signer
  does not fail with InvalidArgument; it succeeds.
\<close>

theorem constructor_accepts_undefined:
  "succeeds (WalletManager_constructor Undefined None)
   \<and> \<not> fails_with InvalidArgument (WalletManager_constructor Undefined None)"
  by (simp add: WalletManager_constructor_def Map_new_def succeeds_def fails_with_def)

text \<open>
  C4 (amended). Constructing a WalletManager never fails: the value given as default
  signer, \<open>undefined\<close> included, is registered under the name \<open>default\<close> as the only
  signer, no account is registered, and the config is stored (the empty object when none
  is given).
\<close>

theorem constructor_registers_default:
  "\<exists>m. WalletManager_constructor signer cfg = Inr m
     \<and> signers m = MapObj [(''default'', signer)]
     \<and> accounts m = MapObj []
     \<and> config m = (case cfg of None \<Rightarrow> [] | Some c \<Rightarrow> c)
     \<and> getSigner ''default'' m = Inr signer"
  by (simp add: WalletManager_constructor_def Map_new_def getSigner_def)

text \<open>
  C5, as stated, fails: \<open>createSigner\<close> throws, and a \<open>getSigner\<close> for the name
  afterwards finds nothing.
\<close>

theorem createSigner_throws:
  "\<not> succeeds (fst (createSigner ''hot'' (Ref 2) sample_manager))
   \<and> getSigner ''hot'' (snd (createSigner ''hot'' (Ref 2) sample_manager)) = Inr Undefined
   \<and> getSigner ''default'' (snd (createSigner ''default'' (Ref 2) sample_manager)) = Inr (Ref 1)"
  by (simp add: createSigner_def succeeds_def getSigner_def sample_manager_def)

text \<open>
  C5 (amended). On the abstract WalletManager \<open>createSigner(name, signer)\<close> fails with
  NotImplemented for every name and signer and registers nothing: the manager is unchanged,
  and \<open>getSigner(name)\<close> afterwards gives what it gave before the call (for \<open>default\<close>,
  still the signer the constructor was given).
\<close>

theorem createSigner_not_implemented:
  "createSigner name signer this
     = (Inl (NotImplementedError ''createSigner(signerName, signer)''), this)
   \<and> fails_with NotImplemented (fst (createSigner name signer this))
   \<and> getSigner name' (snd (createSigner name signer this)) = getSigner name' this"
  by (simp add: createSigner_def fails_with_def)

text \<open>
  C7. Before disposal the signer registry is the \<open>Map\<close> of the constructor. Then
  \<open>getSigner(name)\<close> never throws: it returns the signer registered under \<open>name\<close>, and
  \<open>undefined\<close> when no signer is registered under it.
\<close>

theorem getSigner_before_disposal:
  assumes "signers this = MapObj es"
  shows "succeeds (getSigner name this)
   \<and> (case map_of es name of
        Some s \<Rightarrow> getSigner name this = Inr s
      | None \<Rightarrow> getSigner name this = Inr Undefined)"
  using assms by (simp add: getSigner_def succeeds_def split: option.splits)

theorem getSigner_before_disposal_witness:
  "signers sample_manager = MapObj [(''default'', Ref 1)]
   \<and> getSigner ''default'' sample_manager = Inr (Ref 1)
   \<and> getSigner ''hot'' sample_manager = Inr Undefined"
proof -
  have reg: "signers sample_manager = MapObj [(''default'', Ref 1)]"
    by (simp add: sample_manager_def)
  from getSigner_before_disposal [OF reg, of "''default''"]
       getSigner_before_disposal [OF reg, of "''hot''"] reg
  show ?thesis by simp
qed

section \<open>The abstract methods\<close>

text \<open>
  C6. On the abstract WalletManager, \<open>getAccount\<close>, \<open>getAccountByPath\<close> and
  \<open>getFeeRates\<close> fail with NotImplemented for every index, path and signer name (given or
  left to its default), in every state of the manager.
\<close>

theorem abstract_methods_not_implemented:
  "fails_with NotImplemented (getAccount idx n1 this)
   \<and> fails_with NotImplemented (getAccountByPath p n2 this)
   \<and> fails_with NotImplemented (getFeeRates this)"
  by (simp add: fails_with_def getAccount_def getAccountByPath_def getFeeRates_def)

end
